theory Spec2Isabelle
  imports Complex_Main "HOL-Library.Word" "HOL-Library.Signed_Division"
begin

section \<open>Smart farming controller: sensor validation, irrigation decision, safety supervisor\<close>

text \<open>
  The development embeds the control core of \<^verbatim>\<open>MainCode/smart_farming_online.ino\<close>
  (called the main sketch below) and, where the second build differs, of
  \<^verbatim>\<open>MainCode/online/online.ino\<close> (the online sketch). Conventions:
  \<^item> \<^verbatim>\<open>unsigned long\<close> timestamps are \<open>32 word\<close>: subtraction wraps and \<open>\<le>\<close> is the
    unsigned comparison, as on the ESP32;
  \<^item> \<^verbatim>\<open>int\<close> counters and percentages are \<open>int\<close>: the sketch adds one per event, and
    signed overflow after 2^31 events (undefined in C++) is not modelled;
  \<^item> \<^verbatim>\<open>float\<close> sensor values are \<open>real\<close>, a DHT read is \<open>real option\<close> with \<open>None\<close>
    for NaN; binary rounding of \<^verbatim>\<open>temperature * 10\<close> is idealised;
  \<^item> the two global structs are records, the sketch's globals are one record that every
    \<^verbatim>\<open>void\<close> function takes and returns;
  \<^item> \<^verbatim>\<open>digitalWrite(RELAY_PIN, v)\<close> is recorded in \<open>relayWrites\<close>, newest write first;
  \<^item> serial, LCD, LED, WiFi, cloud and HTTP response output is left out: no control
    decision reads it back.
\<close>

subsection \<open>Configuration (config.h, setup type POTENTIOMETER\_IOT)\<close>

type_synonym millis = "32 word"

named_theorems config \<open>values of the configuration macros\<close>

definition CONTROL_NONE :: nat where [config]: "CONTROL_NONE = 0"
definition CONTROL_POTENTIOMETER :: nat where [config]: "CONTROL_POTENTIOMETER = 1"
definition CONTROL_ROTARY_ENCODER :: nat where [config]: "CONTROL_ROTARY_ENCODER = 2"
definition CONTROL_TYPE :: nat where [config]: "CONTROL_TYPE = CONTROL_POTENTIOMETER"
definition CONTROL_ENABLED :: bool where [config]: "CONTROL_ENABLED = (CONTROL_TYPE \<noteq> CONTROL_NONE)"

definition SOIL_MOISTURE_THRESHOLD :: int where [config]: "SOIL_MOISTURE_THRESHOLD = 30"
definition IRRIGATION_DURATION :: millis where [config]: "IRRIGATION_DURATION = 5000"
definition IRRIGATION_COOLDOWN :: millis where [config]: "IRRIGATION_COOLDOWN = 300000"
definition MAX_DAILY_IRRIGATIONS :: int where [config]: "MAX_DAILY_IRRIGATIONS = 10"

definition POTENTIOMETER_UPDATE_INTERVAL :: millis where [config]: "POTENTIOMETER_UPDATE_INTERVAL = 100"
definition POTENTIOMETER_MIN_THRESHOLD :: int where [config]: "POTENTIOMETER_MIN_THRESHOLD = 5"
definition POTENTIOMETER_MAX_THRESHOLD :: int where [config]: "POTENTIOMETER_MAX_THRESHOLD = 50"

definition SOIL_MOISTURE_DRY_VALUE :: int where [config]: "SOIL_MOISTURE_DRY_VALUE = 4095"
definition SOIL_MOISTURE_WET_VALUE :: int where [config]: "SOIL_MOISTURE_WET_VALUE = 0"
definition LDR_ENABLED :: bool where [config]: "LDR_ENABLED = False"
definition LDR_DARK_VALUE :: int where [config]: "LDR_DARK_VALUE = 4095"
definition LDR_BRIGHT_VALUE :: int where [config]: "LDR_BRIGHT_VALUE = 0"

definition MIN_TEMPERATURE :: real where [config]: "MIN_TEMPERATURE = - 10"
definition MAX_TEMPERATURE :: real where [config]: "MAX_TEMPERATURE = 60"
definition MIN_HUMIDITY :: real where [config]: "MIN_HUMIDITY = 0"
definition MAX_HUMIDITY :: real where [config]: "MAX_HUMIDITY = 100"
definition MIN_SOIL_MOISTURE :: int where [config]: "MIN_SOIL_MOISTURE = 0"
definition MAX_SOIL_MOISTURE :: int where [config]: "MAX_SOIL_MOISTURE = 100"
definition MIN_LIGHT_LEVEL :: int where [config]: "MIN_LIGHT_LEVEL = 0"
definition MAX_LIGHT_LEVEL :: int where [config]: "MAX_LIGHT_LEVEL = 100"
definition TEMPERATURE_VALIDATION :: bool where [config]: "TEMPERATURE_VALIDATION = True"
definition HUMIDITY_VALIDATION :: bool where [config]: "HUMIDITY_VALIDATION = True"
definition SOIL_MOISTURE_VALIDATION :: bool where [config]: "SOIL_MOISTURE_VALIDATION = True"
definition LIGHT_VALIDATION :: bool where [config]: "LIGHT_VALIDATION = True"
definition MAX_SOIL_MOISTURE_CHANGE :: int where [config]: "MAX_SOIL_MOISTURE_CHANGE = 20"
definition MAX_LIGHT_CHANGE :: int where [config]: "MAX_LIGHT_CHANGE = 30"
definition SENSOR_CONSISTENCY_CHECKS :: nat where [config]: "SENSOR_CONSISTENCY_CHECKS = 3"
definition SENSOR_CONSISTENCY_THRESHOLD :: int where [config]: "SENSOR_CONSISTENCY_THRESHOLD = 5"
definition CONSISTENCY_VALIDATION :: bool where [config]: "CONSISTENCY_VALIDATION = True"

definition SENSOR_READ_INTERVAL :: millis where [config]: "SENSOR_READ_INTERVAL = 5000"
definition STATUS_CHECK_INTERVAL :: millis where [config]: "STATUS_CHECK_INTERVAL = 1000"
definition MAX_SENSOR_ERRORS :: int where [config]: "MAX_SENSOR_ERRORS = 5"
definition WATCHDOG_ENABLED :: bool where [config]: "WATCHDOG_ENABLED = True"
definition PUMP_RUNTIME_PROTECTION :: bool where [config]: "PUMP_RUNTIME_PROTECTION = True"
definition MAX_PUMP_RUNTIME :: millis where [config]: "MAX_PUMP_RUNTIME = 300000"
definition EMERGENCY_STOP_ENABLED :: bool where [config]: "EMERGENCY_STOP_ENABLED = True"
definition AUTO_RECOVERY_ENABLED :: bool where [config]: "AUTO_RECOVERY_ENABLED = True"
definition RECOVERY_ATTEMPTS :: int where [config]: "RECOVERY_ATTEMPTS = 3"
definition SENSOR_DISCONNECT_THRESHOLD :: int where [config]: "SENSOR_DISCONNECT_THRESHOLD = 10"

subsection \<open>Global state\<close>

text \<open>
  \<^verbatim>\<open>struct SystemState\<close> without its display, WiFi and cloud bookkeeping; the control
  fields are those of the potentiometer build.
\<close>

record SystemState =
  temperature :: real
  humidity :: real
  soilMoistureRaw :: int
  soilMoisturePercent :: int
  pumpActive :: bool
  systemOK :: bool
  emergencyStop :: bool
  lastIrrigation :: millis
  pumpStartTime :: millis
  dailyIrrigations :: int
  lastSensorRead :: millis
  sensorErrors :: int
  recoveryAttempts :: int
  lastErrorCheck :: millis
  lastWatchdogFeed :: millis
  potentiometerValue :: int
  adjustedThreshold :: int
  lastPotentiometerRead :: millis

text \<open>
  \<^verbatim>\<open>struct SensorValidation\<close>. The three reading arrays have
  \<^verbatim>\<open>SENSOR_CONSISTENCY_CHECKS\<close> slots; \<open>readingIndex\<close> is the slot written next.
\<close>

record SensorValidation =
  lastTemperature :: real
  lastHumidity :: real
  lastSoilMoisture :: int
  temperatureReadings :: "int list"
  humidityReadings :: "int list"
  soilMoistureReadings :: "int list"
  readingIndex :: nat
  temperatureValid :: bool
  humidityValid :: bool
  soilMoistureValid :: bool
  disconnectCount :: int

text \<open>
  The online sketch adds a light channel to both structs. Its functions that are
  textually the same as the main sketch's are shared through the record schemes.
\<close>

record SystemStateOnline = SystemState +
  lightLevelRaw :: int
  lightLevelPercent :: int

record SensorValidationOnline = SensorValidation +
  lastLightLevel :: int
  lightLevelReadings :: "int list"
  lightLevelValid :: bool

record ('s, 'v) globals =
  systemState :: "'s SystemState_scheme"
  sensorValidation :: "'v SensorValidation_scheme"
  currentTime :: millis
  relayWrites :: "bool list"

type_synonym main_globals = "(unit, unit) globals"
type_synonym online_globals =
  "(unit SystemStateOnline_ext, unit SensorValidationOnline_ext) globals"

text \<open>The level of the relay line: the last value written, LOW before any write.\<close>

definition relayLevel :: "('s, 'v) globals \<Rightarrow> bool" where
  "relayLevel g = (case relayWrites g of [] \<Rightarrow> False | v # _ \<Rightarrow> v)"

subsection \<open>Arduino helpers\<close>

text \<open>
  \<^verbatim>\<open>map\<close> and \<^verbatim>\<open>constrain\<close> of the Arduino core; C's integer division truncates towards
  zero (\<open>sdiv\<close>). \<open>c_int\<close> is the cast \<^verbatim>\<open>(int)\<close> of a float, truncating towards zero.
\<close>

definition map_range :: "int \<Rightarrow> int \<Rightarrow> int \<Rightarrow> int \<Rightarrow> int \<Rightarrow> int" where
  "map_range x in_min in_max out_min out_max =
     (x - in_min) * (out_max - out_min) sdiv (in_max - in_min) + out_min"

definition constrain :: "int \<Rightarrow> int \<Rightarrow> int \<Rightarrow> int" where
  "constrain x lo hi = (if x < lo then lo else if x > hi then hi else x)"

definition c_int :: "real \<Rightarrow> int" where
  "c_int x = (if 0 \<le> x then \<lfloor>x\<rfloor> else \<lceil>x\<rceil>)"

subsection \<open>Irrigation control\<close>

text \<open>
  \<open>irrigationThreshold\<close> is the local \<^verbatim>\<open>threshold\<close> of \<^verbatim>\<open>controlIrrigation\<close>
  and \<open>startConditions\<close> the condition of its first \<^verbatim>\<open>if\<close>, built from the locals
  of the source in their order.
\<close>

definition startIrrigation :: "('s, 'v) globals \<Rightarrow> ('s, 'v) globals" where
  "startIrrigation g =
     g\<lparr>relayWrites := True # relayWrites g,
       systemState := (systemState g)
         \<lparr>pumpActive := True,
          pumpStartTime := currentTime g,
          lastIrrigation := currentTime g,
          dailyIrrigations := dailyIrrigations (systemState g) + 1\<rparr>\<rparr>"

definition stopIrrigation :: "('s, 'v) globals \<Rightarrow> ('s, 'v) globals" where
  "stopIrrigation g =
     g\<lparr>relayWrites := False # relayWrites g,
       systemState := (systemState g)\<lparr>pumpActive := False\<rparr>\<rparr>"

definition irrigationThreshold :: "('s, 'v) globals \<Rightarrow> int" where
  "irrigationThreshold g =
     (if CONTROL_TYPE = CONTROL_POTENTIOMETER \<or> CONTROL_TYPE = CONTROL_ROTARY_ENCODER
      then adjustedThreshold (systemState g) else SOIL_MOISTURE_THRESHOLD)"

definition startConditions :: "('s, 'v) globals \<Rightarrow> bool" where
  "startConditions g =
     (let s = systemState g;
          needsIrrigation = (soilMoisturePercent s < irrigationThreshold g);
          cooldownExpired = (currentTime g - lastIrrigation s \<ge> IRRIGATION_COOLDOWN);
          withinDailyLimit = (dailyIrrigations s < MAX_DAILY_IRRIGATIONS);
          systemHealthy = (systemOK s \<and> sensorErrors s < MAX_SENSOR_ERRORS)
      in needsIrrigation \<and> cooldownExpired \<and> withinDailyLimit \<and> systemHealthy
           \<and> \<not> pumpActive s)"

definition controlIrrigation :: "('s, 'v) globals \<Rightarrow> ('s, 'v) globals" where
  "controlIrrigation g =
     (let g1 = (if startConditions g then startIrrigation g else g)
      in if pumpActive (systemState g1)
            \<and> currentTime g1 - lastIrrigation (systemState g1) \<ge> IRRIGATION_DURATION
         then stopIrrigation g1 else g1)"

subsection \<open>Safety functions\<close>

definition feedWatchdog :: "('s, 'v) globals \<Rightarrow> ('s, 'v) globals" where
  "feedWatchdog g =
     (if WATCHDOG_ENABLED
      then g\<lparr>systemState := (systemState g)\<lparr>lastWatchdogFeed := currentTime g\<rparr>\<rparr>
      else g)"

text \<open>The function \<^verbatim>\<open>emergencyStop()\<close>; the field of the same name keeps the name.\<close>

definition emergencyStop_fn :: "('s, 'v) globals \<Rightarrow> ('s, 'v) globals" where
  "emergencyStop_fn g =
     (let g1 = (if pumpActive (systemState g) then stopIrrigation g else g)
      in g1\<lparr>systemState := (systemState g1)\<lparr>emergencyStop := True, systemOK := False\<rparr>\<rparr>)"

definition checkPumpRuntime :: "('s, 'v) globals \<Rightarrow> ('s, 'v) globals" where
  "checkPumpRuntime g =
     (if pumpActive (systemState g)
         \<and> currentTime g - pumpStartTime (systemState g) \<ge> MAX_PUMP_RUNTIME
      then stopIrrigation g else g)"

definition checkSystemStatus :: "('s, 'v) globals \<Rightarrow> ('s, 'v) globals" where
  "checkSystemStatus g =
     (if sensorErrors (systemState g) \<ge> MAX_SENSOR_ERRORS
      then g\<lparr>systemState := (systemState g)\<lparr>systemOK := False\<rparr>\<rparr>
      else if sensorErrors (systemState g) = 0
      then g\<lparr>systemState := (systemState g)\<lparr>systemOK := True\<rparr>\<rparr>
      else g)"

subsection \<open>Sensor validation\<close>

definition isSensorReadingValid :: "real \<Rightarrow> real \<Rightarrow> real \<Rightarrow> bool \<Rightarrow> bool" where
  "isSensorReadingValid v minVal maxVal enabled =
     (if \<not> enabled then True else (v \<ge> minVal \<and> v \<le> maxVal))"

text \<open>The summing loop of \<^verbatim>\<open>checkSensorConsistency\<close> runs over the array slots in order.\<close>

definition checkSensorConsistency :: "int list \<Rightarrow> int \<Rightarrow> bool" where
  "checkSensorConsistency readings newReading =
     (let sum = foldl (\<lambda>acc i. acc + readings ! i) 0 [0..<SENSOR_CONSISTENCY_CHECKS];
          average = sum sdiv int SENSOR_CONSISTENCY_CHECKS;
          deviation = \<bar>newReading - average\<bar>
      in deviation \<le> SENSOR_CONSISTENCY_THRESHOLD)"

text \<open>
  The soil-moisture verdict of \<^verbatim>\<open>validateSensorReadings\<close> before the consistency
  check: the range check, then the sudden-change check on a reading that passed it.
\<close>

definition soilRangeAndChange :: "int \<Rightarrow> int \<Rightarrow> bool" where
  "soilRangeAndChange soilMoisture lastSoil =
     (let valid = isSensorReadingValid (real_of_int soilMoisture)
                    (real_of_int MIN_SOIL_MOISTURE) (real_of_int MAX_SOIL_MOISTURE)
                    SOIL_MOISTURE_VALIDATION
      in if SOIL_MOISTURE_VALIDATION \<and> valid
         then (if \<bar>soilMoisture - lastSoil\<bar> > MAX_SOIL_MOISTURE_CHANGE then False else valid)
         else valid)"

definition validateSensorReadings ::
  "real \<Rightarrow> real \<Rightarrow> int \<Rightarrow> ('s, 'v) globals \<Rightarrow> ('s, 'v) globals" where
  "validateSensorReadings t h soilMoisture g =
     (let v = sensorValidation g;
          tValid = isSensorReadingValid t MIN_TEMPERATURE MAX_TEMPERATURE TEMPERATURE_VALIDATION;
          hValid = isSensorReadingValid h MIN_HUMIDITY MAX_HUMIDITY HUMIDITY_VALIDATION;
          sValid = soilRangeAndChange soilMoisture (lastSoilMoisture v);
          tValid' = (if CONSISTENCY_VALIDATION
                     then tValid \<and> checkSensorConsistency (temperatureReadings v) (c_int (t * 10))
                     else tValid);
          hValid' = (if CONSISTENCY_VALIDATION
                     then hValid \<and> checkSensorConsistency (humidityReadings v) (c_int (h * 10))
                     else hValid);
          sValid' = (if CONSISTENCY_VALIDATION
                     then sValid \<and> checkSensorConsistency (soilMoistureReadings v) soilMoisture
                     else sValid)
      in g\<lparr>sensorValidation := v
           \<lparr>temperatureValid := tValid',
            humidityValid := hValid',
            soilMoistureValid := sValid',
            lastTemperature := t,
            lastHumidity := h,
            lastSoilMoisture := soilMoisture,
            temperatureReadings := (temperatureReadings v)[readingIndex v := c_int (t * 10)],
            humidityReadings := (humidityReadings v)[readingIndex v := c_int (h * 10)],
            soilMoistureReadings := (soilMoistureReadings v)[readingIndex v := soilMoisture],
            readingIndex := (readingIndex v + 1) mod SENSOR_CONSISTENCY_CHECKS\<rparr>\<rparr>)"

subsection \<open>Sensor acquisition\<close>

text \<open>What the hardware delivers in one call of \<^verbatim>\<open>readSensors\<close>.\<close>

record sample =
  dhtTemperature :: "real option"
  dhtHumidity :: "real option"
  soilAnalog :: int

definition soilPercent :: "int \<Rightarrow> int" where
  "soilPercent raw =
     constrain (map_range raw SOIL_MOISTURE_WET_VALUE SOIL_MOISTURE_DRY_VALUE 100 0) 0 100"

text \<open>\<^verbatim>\<open>readSensors\<close> of the main sketch (DHT enabled).\<close>

definition readSensors :: "sample \<Rightarrow> main_globals \<Rightarrow> main_globals" where
  "readSensors smp g =
     (case (dhtTemperature smp, dhtHumidity smp) of
        (Some t, Some h) \<Rightarrow>
          (let raw = soilAnalog smp;
               pct = soilPercent raw;
               g1 = validateSensorReadings t h pct g;
               v1 = sensorValidation g1
           in if temperatureValid v1 \<and> humidityValid v1 \<and> soilMoistureValid v1
              then g1\<lparr>systemState := (systemState g1)
                        \<lparr>temperature := t, humidity := h, soilMoistureRaw := raw,
                         soilMoisturePercent := pct, sensorErrors := 0\<rparr>,
                      sensorValidation := v1\<lparr>disconnectCount := 0\<rparr>\<rparr>
              else g1\<lparr>systemState := (systemState g1)
                        \<lparr>sensorErrors := sensorErrors (systemState g1) + 1\<rparr>\<rparr>)
      | _ \<Rightarrow>
          g\<lparr>systemState := (systemState g)\<lparr>sensorErrors := sensorErrors (systemState g) + 1\<rparr>,
            sensorValidation := (sensorValidation g)
              \<lparr>disconnectCount := disconnectCount (sensorValidation g) + 1\<rparr>\<rparr>)"

subsection \<open>Web and hardware control\<close>

text \<open>
  One call of \<^verbatim>\<open>server.handleClient()\<close> serves at most one request. Only
  \<^verbatim>\<open>POST /control\<close> changes controller state; its argument is the value of
  \<^verbatim>\<open>action\<close> when present. Both sketches define the web handler as \<^verbatim>\<open>handleControl\<close>;
  the hardware handler, which the main sketch also calls \<^verbatim>\<open>handleControl\<close>, has the name
  \<^verbatim>\<open>handleHardwareControl\<close> that the online sketch gives it.
\<close>

datatype request = ControlPost "string option" | OtherRoute

definition handleControl :: "string option \<Rightarrow> ('s, 'v) globals \<Rightarrow> ('s, 'v) globals" where
  "handleControl arg g =
     (case arg of
        Some action \<Rightarrow>
          if action = ''start'' then startIrrigation g
          else if action = ''stop'' then stopIrrigation g
          else g
      | None \<Rightarrow> g)"

definition handleClient :: "request option \<Rightarrow> ('s, 'v) globals \<Rightarrow> ('s, 'v) globals" where
  "handleClient req g =
     (case req of
        Some (ControlPost arg) \<Rightarrow> handleControl arg g
      | Some OtherRoute \<Rightarrow> g
      | None \<Rightarrow> g)"

definition handlePotentiometer :: "int \<Rightarrow> main_globals \<Rightarrow> main_globals" where
  "handlePotentiometer pot g =
     (if currentTime g - lastPotentiometerRead (systemState g) \<ge> POTENTIOMETER_UPDATE_INTERVAL
      then g\<lparr>systemState := (systemState g)
               \<lparr>potentiometerValue := pot,
                adjustedThreshold :=
                  map_range pot 0 4095 POTENTIOMETER_MIN_THRESHOLD POTENTIOMETER_MAX_THRESHOLD,
                lastPotentiometerRead := currentTime g\<rparr>\<rparr>
      else g)"

definition handleHardwareControl :: "int \<Rightarrow> main_globals \<Rightarrow> main_globals" where
  "handleHardwareControl pot g =
     (if CONTROL_TYPE = CONTROL_POTENTIOMETER then handlePotentiometer pot g else g)"

subsection \<open>Recovery\<close>

definition attemptSystemRecovery ::
  "real option \<Rightarrow> real option \<Rightarrow> main_globals \<Rightarrow> main_globals" where
  "attemptSystemRecovery testTemp testHumidity g =
     (let s = (systemState g)
                \<lparr>recoveryAttempts := recoveryAttempts (systemState g) + 1, sensorErrors := 0\<rparr>;
          v = (sensorValidation g)
                \<lparr>temperatureValid := True, humidityValid := True, soilMoistureValid := True,
                 disconnectCount := 0\<rparr>
      in if testTemp \<noteq> None \<and> testHumidity \<noteq> None
         then g\<lparr>systemState := s\<lparr>systemOK := True, recoveryAttempts := 0\<rparr>,
                 sensorValidation := v\<rparr>
         else g\<lparr>systemState := s, sensorValidation := v\<rparr>)"

subsection \<open>The main loop\<close>

text \<open>
  Everything one pass of \<^verbatim>\<open>loop()\<close> reads from outside: the clock, the pending web
  request, the sensors, the potentiometer and the DHT re-test of a recovery attempt.
\<close>

record cycle_input =
  millis :: millis
  webRequest :: "request option"
  sensors :: sample
  potAnalog :: int
  recoveryTemp :: "real option"
  recoveryHumidity :: "real option"

text \<open>
  The statements of \<^verbatim>\<open>loop()\<close> after the emergency-stop check, one definition each,
  named after the statement's comment in the source.
\<close>

definition pumpRuntimeProtection :: "main_globals \<Rightarrow> main_globals" where
  "pumpRuntimeProtection g =
     (if PUMP_RUNTIME_PROTECTION \<and> pumpActive (systemState g) then checkPumpRuntime g else g)"

definition readSensorsAtInterval :: "sample \<Rightarrow> main_globals \<Rightarrow> main_globals" where
  "readSensorsAtInterval smp g =
     (if currentTime g - lastSensorRead (systemState g) \<ge> SENSOR_READ_INTERVAL
      then (let g' = readSensors smp g
            in g'\<lparr>systemState := (systemState g')\<lparr>lastSensorRead := currentTime g'\<rparr>\<rparr>)
      else g)"

definition handleControlInput :: "int \<Rightarrow> main_globals \<Rightarrow> main_globals" where
  "handleControlInput pot g = (if CONTROL_ENABLED then handleHardwareControl pot g else g)"

definition checkStatusAtInterval :: "main_globals \<Rightarrow> main_globals" where
  "checkStatusAtInterval g =
     (if currentTime g - lastErrorCheck (systemState g) \<ge> STATUS_CHECK_INTERVAL
      then (let g' = checkSystemStatus g
            in g'\<lparr>systemState := (systemState g')\<lparr>lastErrorCheck := currentTime g'\<rparr>\<rparr>)
      else g)"

definition attemptRecoveryIfNeeded ::
  "real option \<Rightarrow> real option \<Rightarrow> main_globals \<Rightarrow> main_globals" where
  "attemptRecoveryIfNeeded testTemp testHumidity g =
     (if AUTO_RECOVERY_ENABLED \<and> \<not> systemOK (systemState g)
         \<and> recoveryAttempts (systemState g) < RECOVERY_ATTEMPTS
      then attemptSystemRecovery testTemp testHumidity g else g)"

text \<open>
  One pass of \<^verbatim>\<open>loop()\<close>: the clock is read once, the watchdog fed, and a set
  emergency flag ends the pass after \<^verbatim>\<open>emergencyStop()\<close>; otherwise the statements run
  in the order of the list.
\<close>

definition loop :: "cycle_input \<Rightarrow> main_globals \<Rightarrow> main_globals" where
  "loop inp g0 =
     (let g = feedWatchdog (g0\<lparr>currentTime := millis inp\<rparr>)
      in if EMERGENCY_STOP_ENABLED \<and> emergencyStop (systemState g) then emergencyStop_fn g
         else fold (\<lambda>statement. statement)
                [pumpRuntimeProtection,
                 handleClient (webRequest inp),
                 readSensorsAtInterval (sensors inp),
                 handleControlInput (potAnalog inp),
                 controlIrrigation,
                 checkStatusAtInterval,
                 attemptRecoveryIfNeeded (recoveryTemp inp) (recoveryHumidity inp)]
                g)"

text \<open>Consecutive passes of the loop, one input each.\<close>

fun run :: "cycle_input list \<Rightarrow> main_globals \<Rightarrow> main_globals" where
  "run [] g = g"
| "run (inp # inps) g = run inps (loop inp g)"

text \<open>The relay writes performed by one pass, newest first.\<close>

definition cycleWrites :: "cycle_input \<Rightarrow> main_globals \<Rightarrow> bool list" where
  "cycleWrites inp g =
     take (length (relayWrites (loop inp g)) - length (relayWrites g)) (relayWrites (loop inp g))"

text \<open>
  The state \<^verbatim>\<open>setup()\<close> leaves: the struct initialisers, the relay written LOW by
  \<^verbatim>\<open>initializeActuators\<close>, the threshold default of \<^verbatim>\<open>initializeControl\<close>, and
  \<open>systemOK\<close> cleared when the DHT test read of \<^verbatim>\<open>initializeSensors\<close> fails.
\<close>

definition initialState :: "bool \<Rightarrow> main_globals" where
  "initialState dhtOk =
     \<lparr>systemState =
        \<lparr>temperature = 0, humidity = 0, soilMoistureRaw = 0, soilMoisturePercent = 0,
         pumpActive = False, systemOK = dhtOk, emergencyStop = False,
         lastIrrigation = 0, pumpStartTime = 0, dailyIrrigations = 0, lastSensorRead = 0,
         sensorErrors = 0, recoveryAttempts = 0, lastErrorCheck = 0, lastWatchdogFeed = 0,
         potentiometerValue = 0, adjustedThreshold = SOIL_MOISTURE_THRESHOLD,
         lastPotentiometerRead = 0\<rparr>,
      sensorValidation =
        \<lparr>lastTemperature = 0, lastHumidity = 0, lastSoilMoisture = 0,
         temperatureReadings = [0, 0, 0], humidityReadings = [0, 0, 0],
         soilMoistureReadings = [0, 0, 0], readingIndex = 0,
         temperatureValid = True, humidityValid = True, soilMoistureValid = True,
         disconnectCount = 0\<rparr>,
      currentTime = 0,
      relayWrites = [False]\<rparr>"

subsection \<open>The online sketch's sensor path\<close>

text \<open>
  \<^verbatim>\<open>validateSensorReadings\<close> and \<^verbatim>\<open>readSensors\<close> of the online sketch, which carry the
  light channel and differ from the main sketch in what they store.
\<close>

definition lightRangeAndChange :: "int \<Rightarrow> int \<Rightarrow> bool" where
  "lightRangeAndChange lightLevel lastLight =
     (let valid = isSensorReadingValid (real_of_int lightLevel)
                    (real_of_int MIN_LIGHT_LEVEL) (real_of_int MAX_LIGHT_LEVEL) LIGHT_VALIDATION
      in if LIGHT_VALIDATION \<and> valid
         then (if \<bar>lightLevel - lastLight\<bar> > MAX_LIGHT_CHANGE then False else valid)
         else valid)"

definition validateSensorReadings_online ::
  "real \<Rightarrow> real \<Rightarrow> int \<Rightarrow> int \<Rightarrow> online_globals \<Rightarrow> online_globals" where
  "validateSensorReadings_online t h soilMoisture lightLevel g =
     (let v = sensorValidation g;
          tValid = isSensorReadingValid t MIN_TEMPERATURE MAX_TEMPERATURE TEMPERATURE_VALIDATION;
          hValid = isSensorReadingValid h MIN_HUMIDITY MAX_HUMIDITY HUMIDITY_VALIDATION;
          sValid = soilRangeAndChange soilMoisture (lastSoilMoisture v);
          lValid = lightRangeAndChange lightLevel (lastLightLevel v);
          tValid' = (if CONSISTENCY_VALIDATION
                     then tValid \<and> checkSensorConsistency (temperatureReadings v) (c_int (t * 10))
                     else tValid);
          hValid' = (if CONSISTENCY_VALIDATION
                     then hValid \<and> checkSensorConsistency (humidityReadings v) (c_int (h * 10))
                     else hValid);
          sValid' = (if CONSISTENCY_VALIDATION
                     then sValid \<and> checkSensorConsistency (soilMoistureReadings v) soilMoisture
                     else sValid);
          lValid' = (if CONSISTENCY_VALIDATION
                     then lValid \<and> checkSensorConsistency (lightLevelReadings v) lightLevel
                     else lValid)
      in g\<lparr>sensorValidation := v
           \<lparr>temperatureValid := tValid',
            humidityValid := hValid',
            soilMoistureValid := sValid',
            lightLevelValid := lValid',
            lastTemperature := t,
            lastHumidity := h,
            lastSoilMoisture := soilMoisture,
            lastLightLevel := lightLevel,
            temperatureReadings := (temperatureReadings v)[readingIndex v := c_int (t * 10)],
            humidityReadings := (humidityReadings v)[readingIndex v := c_int (h * 10)],
            soilMoistureReadings := (soilMoistureReadings v)[readingIndex v := soilMoisture],
            lightLevelReadings := (lightLevelReadings v)[readingIndex v := lightLevel],
            readingIndex := (readingIndex v + 1) mod SENSOR_CONSISTENCY_CHECKS\<rparr>\<rparr>)"

record sample_online = sample +
  ldrAnalog :: int

definition readSensors_online :: "sample_online \<Rightarrow> online_globals \<Rightarrow> online_globals" where
  "readSensors_online smp g =
     (case (dhtTemperature smp, dhtHumidity smp) of
        (Some t, Some h) \<Rightarrow>
          (let raw = soilAnalog smp;
               pct = soilPercent raw;
               lightRaw = (if LDR_ENABLED then ldrAnalog smp else 2048);
               lightPct = (if LDR_ENABLED
                           then constrain (map_range lightRaw LDR_DARK_VALUE LDR_BRIGHT_VALUE 0 100) 0 100
                           else 50);
               g1 = validateSensorReadings_online t h pct lightPct g;
               g2 = g1\<lparr>systemState := (systemState g1)
                        \<lparr>soilMoistureRaw := raw, soilMoisturePercent := pct,
                         lightLevelRaw := lightRaw, lightLevelPercent := lightPct\<rparr>\<rparr>;
               v2 = sensorValidation g2
           in if temperatureValid v2 \<and> humidityValid v2
              then g2\<lparr>systemState := (systemState g2)
                        \<lparr>temperature := t, humidity := h, sensorErrors := 0\<rparr>,
                      sensorValidation := v2\<lparr>disconnectCount := 0\<rparr>\<rparr>
              else g2\<lparr>systemState := (systemState g2)
                        \<lparr>sensorErrors := sensorErrors (systemState g2) + 1\<rparr>\<rparr>)
      | _ \<Rightarrow>
          g\<lparr>systemState := (systemState g)\<lparr>sensorErrors := sensorErrors (systemState g) + 1\<rparr>,
            sensorValidation := (sensorValidation g)
              \<lparr>disconnectCount := disconnectCount (sensorValidation g) + 1\<rparr>\<rparr>)"

text \<open>The online sketch's structs as initialised, after \<^verbatim>\<open>setup()\<close>.\<close>

definition initialState_online :: "bool \<Rightarrow> online_globals" where
  "initialState_online dhtOk =
     \<lparr>systemState =
        \<lparr>temperature = 0, humidity = 0, soilMoistureRaw = 0, soilMoisturePercent = 0,
         pumpActive = False, systemOK = dhtOk, emergencyStop = False,
         lastIrrigation = 0, pumpStartTime = 0, dailyIrrigations = 0, lastSensorRead = 0,
         sensorErrors = 0, recoveryAttempts = 0, lastErrorCheck = 0, lastWatchdogFeed = 0,
         potentiometerValue = 0, adjustedThreshold = SOIL_MOISTURE_THRESHOLD,
         lastPotentiometerRead = 0, lightLevelRaw = 0, lightLevelPercent = 0\<rparr>,
      sensorValidation =
        \<lparr>lastTemperature = 0, lastHumidity = 0, lastSoilMoisture = 0,
         temperatureReadings = [0, 0, 0], humidityReadings = [0, 0, 0],
         soilMoistureReadings = [0, 0, 0], readingIndex = 0,
         temperatureValid = True, humidityValid = True, soilMoistureValid = True,
         disconnectCount = 0,
         lastLightLevel = 0, lightLevelReadings = [0, 0, 0], lightLevelValid = True\<rparr>,
      currentTime = 0,
      relayWrites = [False]\<rparr>"

subsection \<open>The pump's view of the state\<close>

record pumpView =
  vActive :: bool
  vStart :: millis
  vLast :: millis
  vDaily :: int
  vEstop :: bool
  vNow :: millis
  vWrites :: "bool list"

definition view :: "('s, 'v) globals \<Rightarrow> pumpView" where
  "view g =
     \<lparr>vActive = pumpActive (systemState g), vStart = pumpStartTime (systemState g),
      vLast = lastIrrigation (systemState g), vDaily = dailyIrrigations (systemState g),
      vEstop = emergencyStop (systemState g), vNow = currentTime g, vWrites = relayWrites g\<rparr>"

definition vstart :: "pumpView \<Rightarrow> pumpView" where
  "vstart p = p\<lparr>vActive := True, vStart := vNow p, vLast := vNow p, vDaily := vDaily p + 1,
               vWrites := True # vWrites p\<rparr>"

definition vstop :: "pumpView \<Rightarrow> pumpView" where
  "vstop p = p\<lparr>vActive := False, vWrites := False # vWrites p\<rparr>"

definition vguard :: "pumpView \<Rightarrow> bool" where
  "vguard p = (vNow p - vLast p \<ge> IRRIGATION_COOLDOWN \<and> vDaily p < MAX_DAILY_IRRIGATIONS
               \<and> \<not> vActive p)"

definition vcontrol :: "bool \<Rightarrow> pumpView \<Rightarrow> pumpView" where
  "vcontrol wish p =
     (if wish \<and> vguard p then vstart p
      else if vActive p \<and> vNow p - vLast p \<ge> IRRIGATION_DURATION then vstop p else p)"

definition vweb :: "request option \<Rightarrow> pumpView \<Rightarrow> pumpView" where
  "vweb req p =
     (if req = Some (ControlPost (Some ''start'')) then vstart p
      else if req = Some (ControlPost (Some ''stop'')) then vstop p else p)"

definition vruntime :: "pumpView \<Rightarrow> pumpView" where
  "vruntime p = (if vActive p \<and> vNow p - vStart p \<ge> MAX_PUMP_RUNTIME then vstop p else p)"

definition vestop :: "pumpView \<Rightarrow> pumpView" where
  "vestop p = (if vActive p then vstop p else p)\<lparr>vEstop := True\<rparr>"

definition vloop :: "millis \<Rightarrow> request option \<Rightarrow> bool \<Rightarrow> pumpView \<Rightarrow> pumpView" where
  "vloop now req wish p =
     (if vEstop p then vestop (p\<lparr>vNow := now\<rparr>)
      else vcontrol wish (vweb req (vruntime (p\<lparr>vNow := now\<rparr>))))"

text \<open>What the automatic decision of a pass sees: the state \<^verbatim>\<open>controlIrrigation\<close> runs on.\<close>

definition decisionState :: "cycle_input \<Rightarrow> main_globals \<Rightarrow> main_globals" where
  "decisionState inp g0 =
     handleControlInput (potAnalog inp)
       (readSensorsAtInterval (sensors inp)
          (handleClient (webRequest inp)
             (pumpRuntimeProtection (feedWatchdog (g0\<lparr>currentTime := millis inp\<rparr>)))))"

definition vcycleWrites :: "millis \<Rightarrow> request option \<Rightarrow> bool \<Rightarrow> pumpView \<Rightarrow> bool list" where
  "vcycleWrites now req wish p =
     take (length (vWrites (vloop now req wish p)) - length (vWrites p))
       (vWrites (vloop now req wish p))"

definition vconsistent :: "pumpView \<Rightarrow> bool" where
  "vconsistent p = ((case vWrites p of [] \<Rightarrow> False | v # _ \<Rightarrow> v) = vActive p)"

subsection \<open>Example inputs\<close>

text \<open>
  A pass with dry soil (the sensor reads 4095, that is 0 percent), a DHT reading that
  validates against the zeroed history, the potentiometer at the default threshold and
  no web request; the same pass carrying a \<^verbatim>\<open>POST /control\<close> request.
\<close>

definition dryInput :: "millis \<Rightarrow> cycle_input" where
  "dryInput t =
     \<lparr>millis = t, webRequest = None,
      sensors = \<lparr>dhtTemperature = Some 0, dhtHumidity = Some 0, soilAnalog = 4095\<rparr>,
      potAnalog = 2275, recoveryTemp = Some 0, recoveryHumidity = Some 0\<rparr>"

definition webInput :: "millis \<Rightarrow> string \<Rightarrow> cycle_input" where
  "webInput t action = (dryInput t)\<lparr>webRequest := Some (ControlPost (Some action))\<rparr>"

text \<open>The pump running since \<open>t\<close> on an otherwise fresh controller.\<close>

definition pumpingSince :: "millis \<Rightarrow> main_globals" where
  "pumpingSince t = startIrrigation ((initialState True)\<lparr>currentTime := t\<rparr>)"

subsection \<open>Runs of the loop\<close>

text \<open>The number of passes of a run that carry a web request to start irrigation.\<close>

definition webStarts :: "cycle_input list \<Rightarrow> nat" where
  "webStarts inps = length (filter (\<lambda>i. webRequest i = Some (ControlPost (Some ''start''))) inps)"

text \<open>No pass of the run writes the relay HIGH.\<close>

fun quiet :: "cycle_input list \<Rightarrow> main_globals \<Rightarrow> bool" where
  "quiet [] g = True"
| "quiet (inp # inps) g = (True \<notin> set (cycleWrites inp g) \<and> quiet inps (loop inp g))"

text \<open>Eleven passes, one second apart, each with a web request to start irrigation.\<close>

definition elevenWebStarts :: "cycle_input list" where
  "elevenWebStarts =
     [webInput 1000 ''start'', webInput 2000 ''start'', webInput 3000 ''start'',
      webInput 4000 ''start'', webInput 5000 ''start'', webInput 6000 ''start'',
      webInput 7000 ''start'', webInput 8000 ''start'', webInput 9000 ''start'',
      webInput 10000 ''start'', webInput 11000 ''start'']"


text \<open>The pump running since \<open>t\<close> with the emergency flag set from outside.\<close>

definition emergencyWhilePumping :: "millis \<Rightarrow> main_globals" where
  "emergencyWhilePumping t =
     (pumpingSince t)\<lparr>systemState := (systemState (pumpingSince t))\<lparr>emergencyStop := True\<rparr>\<rparr>"
subsection \<open>Sample acceptance and example readings\<close>

text \<open>The three validity flags of the main sketch after a sample.\<close>

definition accepted :: "('s, 'v) globals \<Rightarrow> bool" where
  "accepted g =
     (temperatureValid (sensorValidation g) \<and> humidityValid (sensorValidation g)
      \<and> soilMoistureValid (sensorValidation g))"

text \<open>The DHT read returned NaN for the temperature or the humidity.\<close>

definition dhtFailed :: "'a sample_scheme \<Rightarrow> bool" where
  "dhtFailed smp = (dhtTemperature smp = None \<or> dhtHumidity smp = None)"

text \<open>
  Readings with a DHT value that validates against the zeroed history and a soil sensor
  fully wet (0, that is 100 percent) or fully dry (4095, that is 0 percent); ten of them
  in alternation.
\<close>

definition wetReading :: sample where
  "wetReading = \<lparr>dhtTemperature = Some 0, dhtHumidity = Some 0, soilAnalog = 0\<rparr>"

definition dryReading :: sample where
  "dryReading = \<lparr>dhtTemperature = Some 0, dhtHumidity = Some 0, soilAnalog = 4095\<rparr>"

definition tenJumpyReadings :: "sample list" where
  "tenJumpyReadings =
     [wetReading, dryReading, wetReading, dryReading, wetReading,
      dryReading, wetReading, dryReading, wetReading, dryReading]"

text \<open>
  For the online sketch: a reading at 50 percent soil moisture, a dry one, and the state
  after four readings at 50 percent, when the history has filled and the reading validates.
\<close>

definition moistReading_online :: sample_online where
  "moistReading_online =
     \<lparr>dhtTemperature = Some 0, dhtHumidity = Some 0, soilAnalog = 2048, ldrAnalog = 0\<rparr>"

definition dryReading_online :: sample_online where
  "dryReading_online =
     \<lparr>dhtTemperature = Some 0, dhtHumidity = Some 0, soilAnalog = 4095, ldrAnalog = 0\<rparr>"

definition moistState_online :: online_globals where
  "moistState_online =
     fold readSensors_online
       [moistReading_online, moistReading_online, moistReading_online, moistReading_online]
       (initialState_online True)"

text \<open>
  Overwriting \<open>disconnectCount\<close>, and functions whose result, the counter apart, does
  not depend on it.
\<close>

definition setDisconnectCount :: "int \<Rightarrow> main_globals \<Rightarrow> main_globals" where
  "setDisconnectCount n g = g\<lparr>sensorValidation := (sensorValidation g)\<lparr>disconnectCount := n\<rparr>\<rparr>"

definition counterBlind :: "(main_globals \<Rightarrow> main_globals) \<Rightarrow> bool" where
  "counterBlind f =
     (\<forall>n g. setDisconnectCount 0 (f (setDisconnectCount n g)) = setDisconnectCount 0 (f g))"

section \<open>The loop seen through the pump view\<close>

lemma view_sel:
  "vActive (view g) = pumpActive (systemState g)"
  "vStart (view g) = pumpStartTime (systemState g)"
  "vLast (view g) = lastIrrigation (systemState g)"
  "vDaily (view g) = dailyIrrigations (systemState g)"
  "vEstop (view g) = emergencyStop (systemState g)"
  "vNow (view g) = currentTime g"
  "vWrites (view g) = relayWrites g"
  by (simp_all add: view_def)

lemma view_startIrrigation: "view (startIrrigation g) = vstart (view g)"
  by (simp add: view_def startIrrigation_def vstart_def)

lemma view_stopIrrigation: "view (stopIrrigation g) = vstop (view g)"
  by (simp add: view_def stopIrrigation_def vstop_def)

lemma view_feedWatchdog: "view (feedWatchdog g) = view g"
  by (simp add: view_def feedWatchdog_def)

lemma view_clock: "view (g\<lparr>currentTime := t\<rparr>) = (view g)\<lparr>vNow := t\<rparr>"
  by (simp add: view_def)

lemma view_emergencyStop_fn: "view (emergencyStop_fn g) = vestop (view g)"
  by (simp add: emergencyStop_fn_def Let_def vestop_def view_stopIrrigation [symmetric])
     (simp add: view_def)

lemma view_checkPumpRuntime: "view (checkPumpRuntime g) = vruntime (view g)"
  by (simp add: checkPumpRuntime_def vruntime_def view_stopIrrigation view_sel)

lemma view_pumpRuntimeProtection: "view (pumpRuntimeProtection g) = vruntime (view g)"
  by (simp add: pumpRuntimeProtection_def view_checkPumpRuntime PUMP_RUNTIME_PROTECTION_def)
     (simp add: vruntime_def view_sel)

lemma view_handleClient: "view (handleClient req g) = vweb req (view g)"
  by (auto simp add: handleClient_def handleControl_def vweb_def view_startIrrigation
        view_stopIrrigation split: option.splits request.splits)

lemma view_readSensors: "view (readSensors smp g) = view g"
  by (simp add: view_def readSensors_def validateSensorReadings_def Let_def split: option.splits)

lemma view_lastSensorRead:
  "view (g\<lparr>systemState := (systemState g)\<lparr>lastSensorRead := t\<rparr>\<rparr>) = view g"
  by (simp add: view_def)

lemma view_readSensorsAtInterval: "view (readSensorsAtInterval smp g) = view g"
  by (simp add: readSensorsAtInterval_def Let_def view_lastSensorRead view_readSensors)

lemma view_handleControlInput: "view (handleControlInput pot g) = view g"
  by (simp add: view_def handleControlInput_def handleHardwareControl_def handlePotentiometer_def)

lemma view_checkStatusAtInterval: "view (checkStatusAtInterval g) = view g"
  by (simp add: view_def checkStatusAtInterval_def checkSystemStatus_def Let_def)

lemma view_attemptRecoveryIfNeeded: "view (attemptRecoveryIfNeeded a b g) = view g"
  by (simp add: view_def attemptRecoveryIfNeeded_def attemptSystemRecovery_def Let_def)

lemma startConditions_vguard: "startConditions g \<Longrightarrow> vguard (view g)"
  by (simp add: startConditions_def Let_def vguard_def view_def)

lemma view_controlIrrigation: "view (controlIrrigation g) = vcontrol (startConditions g) (view g)"
proof (cases "startConditions g")
  case True
  have "\<not> IRRIGATION_DURATION \<le> 0"
    by (simp add: IRRIGATION_DURATION_def)
  then have "controlIrrigation g = startIrrigation g"
    using True by (simp add: controlIrrigation_def startIrrigation_def)
  then show ?thesis
    using True startConditions_vguard [OF True]
    by (simp add: vcontrol_def view_startIrrigation)
next
  case False
  have "view (controlIrrigation g) =
          (if pumpActive (systemState g)
              \<and> currentTime g - lastIrrigation (systemState g) \<ge> IRRIGATION_DURATION
           then vstop (view g) else view g)"
    using False by (simp add: controlIrrigation_def view_stopIrrigation)
  then show ?thesis
    using False by (simp add: vcontrol_def view_sel)
qed

lemma view_loop:
  "view (loop inp g) =
     vloop (millis inp) (webRequest inp) (startConditions (decisionState inp g)) (view g)"
  by (simp add: loop_def Let_def vloop_def decisionState_def EMERGENCY_STOP_ENABLED_def
        view_emergencyStop_fn view_feedWatchdog view_clock view_attemptRecoveryIfNeeded
        view_checkStatusAtInterval view_controlIrrigation view_handleControlInput
        view_readSensorsAtInterval view_handleClient view_pumpRuntimeProtection)
     (simp add: view_def feedWatchdog_def)

lemma cycleWrites_view:
  "cycleWrites inp g =
     vcycleWrites (millis inp) (webRequest inp) (startConditions (decisionState inp g)) (view g)"
  by (simp add: cycleWrites_def vcycleWrites_def view_loop [symmetric] view_sel)

lemma take_new_writes:
  "take (length xs - length xs) xs = []"
  "take (Suc (length xs) - length xs) (a # xs) = [a]"
  "take (Suc (Suc (length xs)) - length xs) (a # b # xs) = [a, b]"
  "take (Suc (Suc (Suc (length xs))) - length xs) (a # b # c # xs) = [a, b, c]"
  by simp_all

lemmas vdefs = vloop_def vcontrol_def vweb_def vruntime_def vestop_def vstart_def vstop_def
  vguard_def vcycleWrites_def


lemma duration_pos: "IRRIGATION_DURATION \<noteq> 0"
  by (simp add: IRRIGATION_DURATION_def)




lemma vloop_start_cooldown:
  "req \<noteq> Some (ControlPost (Some ''start'')) \<Longrightarrow> True \<in> set (vcycleWrites now req wish p) \<Longrightarrow>
     IRRIGATION_COOLDOWN \<le> now - vLast p"
  by (auto simp add: vdefs take_new_writes split: if_splits)

lemma vloop_last:
  "vLast (vloop now req wish p) =
     (if True \<in> set (vcycleWrites now req wish p) then now else vLast p)"
  by (simp add: vdefs take_new_writes duration_pos)

lemma vloop_daily:
  "vDaily p \<le> MAX_DAILY_IRRIGATIONS + int k \<Longrightarrow>
     vDaily (vloop now req wish p)
       \<le> MAX_DAILY_IRRIGATIONS + int k + (if req = Some (ControlPost (Some ''start'')) then 1 else 0)"
  by (simp add: vdefs)

lemma vloop_web_start:
  "\<not> vEstop p \<Longrightarrow> 
     vloop now (Some (ControlPost (Some ''start''))) wish p =
       (vweb (Some (ControlPost (Some ''start''))) (vruntime (p\<lparr>vNow := now\<rparr>)))"
  by (simp add: vdefs duration_pos)

lemma vloop_consistent: "vconsistent p \<Longrightarrow> vconsistent (vloop now req wish p)"
  by (simp add: vdefs vconsistent_def)




section \<open>Properties of the control loop\<close>




lemma vloop_estop: "vEstop (vloop now req wish p) = vEstop p"
  by (simp add: vdefs)

lemma vloop_web_effect:
  "\<not> vEstop p \<Longrightarrow> req = Some (ControlPost (Some ''start'')) \<Longrightarrow>
     vActive (vloop now req wish p) \<and> vStart (vloop now req wish p) = now
     \<and> vLast (vloop now req wish p) = now \<and> vDaily (vloop now req wish p) = vDaily p + 1
     \<and> True \<in> set (vcycleWrites now req wish p)"
  by (simp add: vdefs duration_pos take_new_writes)

lemma loop_emergency:
  "emergencyStop (systemState g) \<Longrightarrow>
     loop inp g = emergencyStop_fn (feedWatchdog (g\<lparr>currentTime := millis inp\<rparr>))"
  by (simp add: loop_def Let_def EMERGENCY_STOP_ENABLED_def feedWatchdog_def)

lemma loop_daily:
  "dailyIrrigations (systemState g) \<le> MAX_DAILY_IRRIGATIONS + int k \<Longrightarrow>
     dailyIrrigations (systemState (loop inp g))
       \<le> MAX_DAILY_IRRIGATIONS + int k + int (webStarts [inp])"
  using vloop_daily [of "view g" k "millis inp" "webRequest inp"
      "startConditions (decisionState inp g)"]
  by (auto simp add: view_loop [symmetric] view_sel webStarts_def split: if_splits)

lemma webStarts_Cons: "webStarts (inp # inps) = webStarts [inp] + webStarts inps"
  by (simp add: webStarts_def)

lemma run_daily:
  "dailyIrrigations (systemState g) \<le> MAX_DAILY_IRRIGATIONS + int k \<Longrightarrow>
     dailyIrrigations (systemState (run inps g))
       \<le> MAX_DAILY_IRRIGATIONS + int k + int (webStarts inps)"
proof (induction inps arbitrary: g k)
  case Nil
  then show ?case by (simp add: webStarts_def)
next
  case (Cons inp inps)
  have "dailyIrrigations (systemState (loop inp g))
          \<le> MAX_DAILY_IRRIGATIONS + int (k + webStarts [inp])"
    using loop_daily [OF Cons.prems, of inp] by simp
  from Cons.IH [OF this] show ?case
    by (simp add: webStarts_Cons [of inp inps])
qed

text \<open>
  C3, as amended. From the state after \<^verbatim>\<open>setup()\<close>, after any run of the loop,
  \<open>dailyIrrigations\<close> is at most \<open>MAX_DAILY_IRRIGATIONS\<close> plus the number of passes
  that carried a web request to start irrigation: the decision engine alone never takes
  it beyond the maximum, each web start adds at most one.
\<close>

theorem daily_limit_automatic:
  "dailyIrrigations (systemState (run inps (initialState dhtOk)))
     \<le> MAX_DAILY_IRRIGATIONS + int (webStarts inps)"
  using run_daily [of "initialState dhtOk" 0 inps]
  by (simp add: initialState_def MAX_DAILY_IRRIGATIONS_def)

theorem daily_limit_automatic_witness:
  "dailyIrrigations (systemState (run [dryInput 300000, dryInput 305000] (initialState True)))
     \<le> MAX_DAILY_IRRIGATIONS"
  using daily_limit_automatic [of "[dryInput 300000, dryInput 305000]" True]
  by (simp add: webStarts_def dryInput_def)

text \<open>
  C3 as stated fails: after eleven web requests to start irrigation the counter is
  above the maximum.
\<close>

theorem daily_limit_counterexample:
  "MAX_DAILY_IRRIGATIONS < dailyIrrigations (systemState (run elevenWebStarts (initialState True)))"
  by code_simp

text \<open>
  C4, as amended. In a pass without a web request to start irrigation, the relay is
  written HIGH only if \<open>millis - lastIrrigation \<ge> IRRIGATION_COOLDOWN\<close> held for the
  state the pass began in; a web request to start irrigation is accepted in every pass
  that the emergency stop does not end, whatever the cooldown.
\<close>

theorem automatic_start_respects_cooldown:
  "(webRequest inp \<noteq> Some (ControlPost (Some ''start'')) \<and> True \<in> set (cycleWrites inp g)
      \<longrightarrow> IRRIGATION_COOLDOWN \<le> millis inp - lastIrrigation (systemState g))
   \<and> (webRequest inp = Some (ControlPost (Some ''start'')) \<and> \<not> emergencyStop (systemState g)
      \<longrightarrow> True \<in> set (cycleWrites inp g))"
  using vloop_start_cooldown [of "webRequest inp" "millis inp"
          "startConditions (decisionState inp g)" "view g"]
        vloop_web_effect [of "view g" "webRequest inp" "millis inp"
          "startConditions (decisionState inp g)"]
  by (simp add: cycleWrites_view view_sel)

theorem automatic_start_respects_cooldown_witness:
  "True \<in> set (cycleWrites (dryInput 300000) (initialState True))
   \<and> IRRIGATION_COOLDOWN
       \<le> millis (dryInput 300000) - lastIrrigation (systemState (initialState True))"
proof -
  have a: "webRequest (dryInput 300000) \<noteq> Some (ControlPost (Some ''start''))"
    by (simp add: dryInput_def)
  have b: "True \<in> set (cycleWrites (dryInput 300000) (initialState True))"
    by code_simp
  from a b automatic_start_respects_cooldown [of "dryInput 300000" "initialState True"]
  show ?thesis by blast
qed

text \<open>
  C4 as stated fails: one second after boot, inside the cooldown window, a web request
  starts the pump.
\<close>

theorem cooldown_web_counterexample:
  "True \<in> set (cycleWrites (webInput 1000 ''start'') (initialState True))
   \<and> millis (webInput 1000 ''start'') - lastIrrigation (systemState (initialState True))
       < IRRIGATION_COOLDOWN"
  by code_simp

lemma loop_last:
  "lastIrrigation (systemState (loop inp g)) =
     (if True \<in> set (cycleWrites inp g) then millis inp else lastIrrigation (systemState g))"
  using vloop_last [of "millis inp" "webRequest inp" "startConditions (decisionState inp g)"
          "view g"]
  by (simp add: cycleWrites_view view_loop [symmetric] view_sel)

lemma quiet_last:
  "quiet inps g \<Longrightarrow> lastIrrigation (systemState (run inps g)) = lastIrrigation (systemState g)"
  by (induction inps arbitrary: g) (simp_all add: loop_last)

text \<open>
  C5, as amended. The cooldown runs from the START of an irrigation event: when a pass
  at time \<open>t1\<close> switches the pump on, the passes after it do not, and a later pass at
  time \<open>t2\<close> without a web start request switches it on again, then
  \<open>t2 - t1 \<ge> IRRIGATION_COOLDOWN\<close> (in 32-bit clock arithmetic).
\<close>

theorem cooldown_between_starts:
  assumes "True \<in> set (cycleWrites inp1 g)"
    and "quiet inps (loop inp1 g)"
    and "webRequest inp2 \<noteq> Some (ControlPost (Some ''start''))"
    and "True \<in> set (cycleWrites inp2 (run inps (loop inp1 g)))"
  shows "IRRIGATION_COOLDOWN \<le> millis inp2 - millis inp1"
proof -
  have "lastIrrigation (systemState (run inps (loop inp1 g))) = millis inp1"
    using assms(1,2) by (simp add: quiet_last loop_last)
  moreover have "IRRIGATION_COOLDOWN
      \<le> millis inp2 - lastIrrigation (systemState (run inps (loop inp1 g)))"
    using vloop_start_cooldown [OF assms(3), of "millis inp2"
            "startConditions (decisionState inp2 (run inps (loop inp1 g)))"
            "view (run inps (loop inp1 g))"] assms(4)
    by (simp add: cycleWrites_view view_sel)
  ultimately show ?thesis by simp
qed

theorem cooldown_between_starts_witness:
  "True \<in> set (cycleWrites (dryInput 300000) (initialState True))
   \<and> quiet [dryInput 305000] (loop (dryInput 300000) (initialState True))
   \<and> True \<in> set (cycleWrites (dryInput 600000)
                 (run [dryInput 305000] (loop (dryInput 300000) (initialState True))))
   \<and> IRRIGATION_COOLDOWN \<le> millis (dryInput 600000) - millis (dryInput 300000)"
proof -
  have a: "True \<in> set (cycleWrites (dryInput 300000) (initialState True))"
    by code_simp
  have b: "quiet [dryInput 305000] (loop (dryInput 300000) (initialState True))"
    by code_simp
  have c: "webRequest (dryInput 600000) \<noteq> Some (ControlPost (Some ''start''))"
    by (simp add: dryInput_def)
  have d: "True \<in> set (cycleWrites (dryInput 600000)
                 (run [dryInput 305000] (loop (dryInput 300000) (initialState True))))"
    by code_simp
  from a b d cooldown_between_starts [OF a b c d] show ?thesis by blast
qed

text \<open>
  C5 as stated fails: the pump is switched on at 300000 ms, off at 305000 ms and on
  again at 600000 ms, which is 295000 ms after it was switched off.
\<close>

theorem cooldown_from_stop_counterexample:
  "cycleWrites (dryInput 300000) (initialState True) = [True]
   \<and> cycleWrites (dryInput 305000) (loop (dryInput 300000) (initialState True)) = [False]
   \<and> cycleWrites (dryInput 600000)
        (run [dryInput 300000, dryInput 305000] (initialState True)) = [True]
   \<and> millis (dryInput 600000) - millis (dryInput 305000) < IRRIGATION_COOLDOWN"
  by code_simp

lemma relayLevel_view: "relayLevel g = pumpActive (systemState g) \<longleftrightarrow> vconsistent (view g)"
  by (simp add: relayLevel_def vconsistent_def view_sel)

lemma loop_emergency_fields:
  assumes "emergencyStop (systemState g)"
  shows "emergencyStop (systemState (loop inp g))"
    and "\<not> pumpActive (systemState (loop inp g))"
    and "relayWrites (loop inp g) =
           (if pumpActive (systemState g) then False # relayWrites g else relayWrites g)"
    and "dailyIrrigations (systemState (loop inp g)) = dailyIrrigations (systemState g)"
    and "lastIrrigation (systemState (loop inp g)) = lastIrrigation (systemState g)"
    and "pumpStartTime (systemState (loop inp g)) = pumpStartTime (systemState g)"
    and "soilMoisturePercent (systemState (loop inp g)) = soilMoisturePercent (systemState g)"
    and "sensorValidation (loop inp g) = sensorValidation g"
  by (simp_all add: loop_emergency [OF assms] emergencyStop_fn_def feedWatchdog_def
        stopIrrigation_def Let_def)

lemma run_emergency:
  "emergencyStop (systemState g) \<Longrightarrow>
     emergencyStop (systemState (run inps g))
     \<and> (inps \<noteq> [] \<longrightarrow> \<not> pumpActive (systemState (run inps g)))
     \<and> relayWrites (run inps g) =
         (if pumpActive (systemState g) \<and> inps \<noteq> [] then False # relayWrites g
          else relayWrites g)
     \<and> dailyIrrigations (systemState (run inps g)) = dailyIrrigations (systemState g)
     \<and> lastIrrigation (systemState (run inps g)) = lastIrrigation (systemState g)
     \<and> pumpStartTime (systemState (run inps g)) = pumpStartTime (systemState g)
     \<and> soilMoisturePercent (systemState (run inps g)) = soilMoisturePercent (systemState g)
     \<and> sensorValidation (run inps g) = sensorValidation g"
proof (induction inps arbitrary: g)
  case Nil
  then show ?case by simp
next
  case (Cons inp inps)
  note step = loop_emergency_fields [OF Cons.prems, of inp]
  from Cons.IH [OF step(1)] step show ?case
    by (cases "inps = []") simp_all
qed

text \<open>Relay line and \<open>pumpActive\<close> agree after boot and after every pass.\<close>

lemma relay_consistent_initial: "relayLevel (initialState dhtOk) = pumpActive (systemState (initialState dhtOk))"
  by (simp add: relayLevel_def initialState_def)

lemma relay_consistent_loop:
  "relayLevel g = pumpActive (systemState g) \<Longrightarrow>
     relayLevel (loop inp g) = pumpActive (systemState (loop inp g))"
  using vloop_consistent [of "view g" "millis inp" "webRequest inp"
          "startConditions (decisionState inp g)"]
  by (simp add: relayLevel_view view_loop)

text \<open>
  C2. Let the emergency flag be set in a state where the relay line agrees with
  \<open>pumpActive\<close> (as it does after boot and after every pass). Then after every
  non-empty run of the loop, whatever the inputs, the flag is still set, the relay line is
  LOW and the pump is off; the only relay write of the whole run is the LOW that stops a
  running pump; and the irrigation bookkeeping, the soil-moisture state and the sensor
  validation state are untouched: no pass evaluates irrigation or reads the sensors.
\<close>

theorem emergency_stop_latch:
  assumes "emergencyStop (systemState g)"
    and "relayLevel g = pumpActive (systemState g)"
  shows "emergencyStop (systemState (run inps g))
     \<and> (inps \<noteq> [] \<longrightarrow> \<not> relayLevel (run inps g) \<and> \<not> pumpActive (systemState (run inps g)))
     \<and> relayWrites (run inps g) =
         (if pumpActive (systemState g) \<and> inps \<noteq> [] then False # relayWrites g
          else relayWrites g)
     \<and> dailyIrrigations (systemState (run inps g)) = dailyIrrigations (systemState g)
     \<and> lastIrrigation (systemState (run inps g)) = lastIrrigation (systemState g)
     \<and> pumpStartTime (systemState (run inps g)) = pumpStartTime (systemState g)
     \<and> soilMoisturePercent (systemState (run inps g)) = soilMoisturePercent (systemState g)
     \<and> sensorValidation (run inps g) = sensorValidation g"
proof -
  note r = run_emergency [OF assms(1), of inps]
  have "inps \<noteq> [] \<longrightarrow> \<not> relayLevel (run inps g)"
    using r assms(2) by (auto simp add: relayLevel_def split: list.splits if_splits)
  with r show ?thesis by blast
qed

theorem emergency_stop_latch_witness:
  "emergencyStop (systemState (emergencyWhilePumping 1000))
   \<and> relayLevel (emergencyWhilePumping 1000)
   \<and> \<not> relayLevel (run [dryInput 300000, dryInput 600000] (emergencyWhilePumping 1000))
   \<and> dailyIrrigations (systemState (run [dryInput 300000, dryInput 600000]
        (emergencyWhilePumping 1000))) = 1"
proof -
  have a: "emergencyStop (systemState (emergencyWhilePumping 1000))"
    by (simp add: emergencyWhilePumping_def)
  have b: "relayLevel (emergencyWhilePumping 1000)
             = pumpActive (systemState (emergencyWhilePumping 1000))"
    by (simp add: emergencyWhilePumping_def pumpingSince_def startIrrigation_def relayLevel_def)
  have c: "relayLevel (emergencyWhilePumping 1000)"
    by (simp add: emergencyWhilePumping_def pumpingSince_def startIrrigation_def relayLevel_def)
  have d: "dailyIrrigations (systemState (emergencyWhilePumping 1000)) = 1"
    by (simp add: emergencyWhilePumping_def pumpingSince_def startIrrigation_def
          initialState_def)
  from emergency_stop_latch [OF a b, of "[dryInput 300000, dryInput 600000]"] a c d
  show ?thesis by simp
qed

text \<open>
  C9. The web handler calls \<^verbatim>\<open>startIrrigation\<close> for \<^verbatim>\<open>action=start\<close> and
  \<^verbatim>\<open>stopIrrigation\<close> for \<^verbatim>\<open>action=stop\<close> in every state, with no condition:
  \<^verbatim>\<open>startIrrigation\<close> switches the pump on, sets \<open>pumpStartTime\<close> and \<open>lastIrrigation\<close>
  to the current time and adds one to \<open>dailyIrrigations\<close>; \<^verbatim>\<open>stopIrrigation\<close> switches
  the pump off. In a pass of the loop that the emergency stop does not end, a request to
  start therefore leaves the pump on, both timestamps at \<open>millis\<close> and the daily count
  one higher, whatever the cooldown, the daily limit, the health flag or the soil moisture.
\<close>

theorem web_control_bypasses_gating:
  "handleControl (Some ''start'') g = startIrrigation g
   \<and> handleControl (Some ''stop'') g = stopIrrigation g
   \<and> pumpActive (systemState (startIrrigation g)) \<and> relayLevel (startIrrigation g)
   \<and> pumpStartTime (systemState (startIrrigation g)) = currentTime g
   \<and> lastIrrigation (systemState (startIrrigation g)) = currentTime g
   \<and> dailyIrrigations (systemState (startIrrigation g)) = dailyIrrigations (systemState g) + 1
   \<and> \<not> pumpActive (systemState (stopIrrigation g)) \<and> \<not> relayLevel (stopIrrigation g)
   \<and> (webRequest inp = Some (ControlPost (Some ''start'')) \<and> \<not> emergencyStop (systemState m)
        \<longrightarrow> pumpActive (systemState (loop inp m))
            \<and> True \<in> set (cycleWrites inp m)
            \<and> pumpStartTime (systemState (loop inp m)) = millis inp
            \<and> lastIrrigation (systemState (loop inp m)) = millis inp
            \<and> dailyIrrigations (systemState (loop inp m)) = dailyIrrigations (systemState m) + 1)"
proof -
  have h: "handleControl (Some ''start'') g = startIrrigation g
           \<and> handleControl (Some ''stop'') g = stopIrrigation g"
    by (simp add: handleControl_def)
  have s: "pumpActive (systemState (startIrrigation g)) \<and> relayLevel (startIrrigation g)
      \<and> pumpStartTime (systemState (startIrrigation g)) = currentTime g
      \<and> lastIrrigation (systemState (startIrrigation g)) = currentTime g
      \<and> dailyIrrigations (systemState (startIrrigation g)) = dailyIrrigations (systemState g) + 1
      \<and> \<not> pumpActive (systemState (stopIrrigation g)) \<and> \<not> relayLevel (stopIrrigation g)"
    by (simp add: startIrrigation_def stopIrrigation_def relayLevel_def)
  have l: "webRequest inp = Some (ControlPost (Some ''start'')) \<and> \<not> emergencyStop (systemState m)
        \<longrightarrow> pumpActive (systemState (loop inp m))
            \<and> True \<in> set (cycleWrites inp m)
            \<and> pumpStartTime (systemState (loop inp m)) = millis inp
            \<and> lastIrrigation (systemState (loop inp m)) = millis inp
            \<and> dailyIrrigations (systemState (loop inp m)) = dailyIrrigations (systemState m) + 1"
  proof (intro impI, elim conjE)
    assume r: "webRequest inp = Some (ControlPost (Some ''start''))"
      and e: "\<not> emergencyStop (systemState m)"
    have e': "\<not> vEstop (view m)"
      using e by (simp add: view_sel)
    note w = vloop_web_effect [OF e' r, of "millis inp" "startConditions (decisionState inp m)"]
    note vs = view_sel [of "loop inp m", unfolded view_loop]
    from w show "pumpActive (systemState (loop inp m))
            \<and> True \<in> set (cycleWrites inp m)
            \<and> pumpStartTime (systemState (loop inp m)) = millis inp
            \<and> lastIrrigation (systemState (loop inp m)) = millis inp
            \<and> dailyIrrigations (systemState (loop inp m)) = dailyIrrigations (systemState m) + 1"
      by (simp only: vs cycleWrites_view view_sel)
  qed
  from h s l show ?thesis by blast
qed

theorem web_control_bypasses_gating_witness:
  "webRequest (webInput 2000 ''start'') = Some (ControlPost (Some ''start''))
   \<and> \<not> emergencyStop (systemState (pumpingSince 1000))
   \<and> millis (webInput 2000 ''start'') - lastIrrigation (systemState (pumpingSince 1000))
        < IRRIGATION_COOLDOWN
   \<and> dailyIrrigations (systemState (loop (webInput 2000 ''start'') (pumpingSince 1000))) = 2
   \<and> lastIrrigation (systemState (loop (webInput 2000 ''start'') (pumpingSince 1000))) = 2000"
proof -
  have a: "webRequest (webInput 2000 ''start'') = Some (ControlPost (Some ''start''))"
    by (simp add: webInput_def)
  have b: "\<not> emergencyStop (systemState (pumpingSince 1000))"
    by (simp add: pumpingSince_def startIrrigation_def initialState_def)
  have c: "millis (webInput 2000 ''start'') - lastIrrigation (systemState (pumpingSince 1000))
        < IRRIGATION_COOLDOWN"
    by (simp add: webInput_def dryInput_def pumpingSince_def startIrrigation_def
          IRRIGATION_COOLDOWN_def)
  have d: "dailyIrrigations (systemState (pumpingSince 1000)) = 1"
    by (simp add: pumpingSince_def startIrrigation_def initialState_def)
  have e: "millis (webInput 2000 ''start'') = 2000"
    by (simp add: webInput_def dryInput_def)
  from web_control_bypasses_gating [of "pumpingSince 1000" "webInput 2000 ''start''"
         "pumpingSince 1000"] a b c d e
  show ?thesis by simp
qed

lemma vloop_anchors:
  "True \<notin> set (vcycleWrites now req wish p) \<Longrightarrow>
     vLast (vloop now req wish p) = vLast p \<and> vStart (vloop now req wish p) = vStart p
     \<and> vDaily (vloop now req wish p) = vDaily p"
  by (auto simp add: vdefs take_new_writes split: if_splits)

text \<open>
  C10. \<^verbatim>\<open>stopIrrigation\<close>, in both sketches, writes the relay LOW and clears
  \<open>pumpActive\<close>; every other field of \<open>systemState\<close> (\<open>lastIrrigation\<close>,
  \<open>pumpStartTime\<close>, \<open>dailyIrrigations\<close>, \<open>sensorErrors\<close> among them), the sensor
  validation state and the clock are unchanged. After a start and a stop both timestamps
  still hold the time of the start, and a pass of the loop that does not switch the pump
  on (one that stops it included) leaves \<open>lastIrrigation\<close>, \<open>pumpStartTime\<close> and
  \<open>dailyIrrigations\<close> as they were: the windows are anchored at the start.
\<close>

theorem stopIrrigation_frame:
  "systemState (stopIrrigation g) = (systemState g)\<lparr>pumpActive := False\<rparr>
   \<and> relayWrites (stopIrrigation g) = False # relayWrites g
   \<and> sensorValidation (stopIrrigation g) = sensorValidation g
   \<and> currentTime (stopIrrigation g) = currentTime g
   \<and> lastIrrigation (systemState (stopIrrigation g)) = lastIrrigation (systemState g)
   \<and> pumpStartTime (systemState (stopIrrigation g)) = pumpStartTime (systemState g)
   \<and> dailyIrrigations (systemState (stopIrrigation g)) = dailyIrrigations (systemState g)
   \<and> sensorErrors (systemState (stopIrrigation g)) = sensorErrors (systemState g)
   \<and> lastIrrigation (systemState (stopIrrigation (startIrrigation g))) = currentTime g
   \<and> pumpStartTime (systemState (stopIrrigation (startIrrigation g))) = currentTime g
   \<and> (True \<notin> set (cycleWrites inp m) \<longrightarrow>
        lastIrrigation (systemState (loop inp m)) = lastIrrigation (systemState m)
        \<and> pumpStartTime (systemState (loop inp m)) = pumpStartTime (systemState m)
        \<and> dailyIrrigations (systemState (loop inp m)) = dailyIrrigations (systemState m))"
proof -
  have frame: "systemState (stopIrrigation g) = (systemState g)\<lparr>pumpActive := False\<rparr>
     \<and> relayWrites (stopIrrigation g) = False # relayWrites g
     \<and> sensorValidation (stopIrrigation g) = sensorValidation g
     \<and> currentTime (stopIrrigation g) = currentTime g"
    by (simp add: stopIrrigation_def)
  have fields: "lastIrrigation (systemState (stopIrrigation g)) = lastIrrigation (systemState g)
     \<and> pumpStartTime (systemState (stopIrrigation g)) = pumpStartTime (systemState g)
     \<and> dailyIrrigations (systemState (stopIrrigation g)) = dailyIrrigations (systemState g)
     \<and> sensorErrors (systemState (stopIrrigation g)) = sensorErrors (systemState g)"
    by (simp add: stopIrrigation_def)
  have anchored: "lastIrrigation (systemState (stopIrrigation (startIrrigation g))) = currentTime g
     \<and> pumpStartTime (systemState (stopIrrigation (startIrrigation g))) = currentTime g"
    by (simp add: stopIrrigation_def startIrrigation_def)
  have pass: "True \<notin> set (cycleWrites inp m) \<longrightarrow>
        lastIrrigation (systemState (loop inp m)) = lastIrrigation (systemState m)
        \<and> pumpStartTime (systemState (loop inp m)) = pumpStartTime (systemState m)
        \<and> dailyIrrigations (systemState (loop inp m)) = dailyIrrigations (systemState m)"
  proof
    assume q: "True \<notin> set (cycleWrites inp m)"
    note vs = view_sel [of "loop inp m", unfolded view_loop]
    from q have "True \<notin> set (vcycleWrites (millis inp) (webRequest inp)
                   (startConditions (decisionState inp m)) (view m))"
      by (simp add: cycleWrites_view)
    from vloop_anchors [OF this]
    show "lastIrrigation (systemState (loop inp m)) = lastIrrigation (systemState m)
        \<and> pumpStartTime (systemState (loop inp m)) = pumpStartTime (systemState m)
        \<and> dailyIrrigations (systemState (loop inp m)) = dailyIrrigations (systemState m)"
      by (simp only: vs view_sel)
  qed
  from frame fields anchored pass show ?thesis by blast
qed

theorem stopIrrigation_frame_witness:
  "lastIrrigation (systemState (stopIrrigation (pumpingSince 1000))) = 1000
   \<and> dailyIrrigations (systemState (stopIrrigation (pumpingSince 1000))) = 1
   \<and> sensorValidation (stopIrrigation (pumpingSince 1000)) = sensorValidation (initialState True)
   \<and> cycleWrites (dryInput 6000) (pumpingSince 1000) = [False]
   \<and> lastIrrigation (systemState (loop (dryInput 6000) (pumpingSince 1000))) = 1000"
proof -
  have a: "cycleWrites (dryInput 6000) (pumpingSince 1000) = [False]"
    by code_simp
  then have b: "True \<notin> set (cycleWrites (dryInput 6000) (pumpingSince 1000))"
    by simp
  have c: "lastIrrigation (systemState (pumpingSince 1000)) = 1000
           \<and> dailyIrrigations (systemState (pumpingSince 1000)) = 1
           \<and> sensorValidation (pumpingSince 1000) = sensorValidation (initialState True)"
    by (simp add: pumpingSince_def startIrrigation_def initialState_def)
  from a b c stopIrrigation_frame [of "pumpingSince 1000" "dryInput 6000" "pumpingSince 1000"]
  show ?thesis by simp
qed

subsection \<open>Validation\<close>

lemma checkSensorConsistency_eq:
  "checkSensorConsistency readings n =
     (\<bar>n - (readings ! 0 + readings ! 1 + readings ! 2) sdiv 3\<bar> \<le> 5)"
  by (simp add: checkSensorConsistency_def Let_def config upt_rec numeral_2_eq_2)

lemma soilRangeAndChange_eq:
  "soilRangeAndChange soil prev = (0 \<le> soil \<and> soil \<le> 100 \<and> \<bar>soil - prev\<bar> \<le> 20)"
  by (auto simp add: soilRangeAndChange_def isSensorReadingValid_def Let_def config)

lemma lightRangeAndChange_eq:
  "lightRangeAndChange light prev = (0 \<le> light \<and> light \<le> 100 \<and> \<bar>light - prev\<bar> \<le> 30)"
  by (auto simp add: lightRangeAndChange_def isSensorReadingValid_def Let_def config)

lemma temperatureRange_eq:
  "isSensorReadingValid t MIN_TEMPERATURE MAX_TEMPERATURE TEMPERATURE_VALIDATION
     = (- 10 \<le> t \<and> t \<le> 60)"
  by (simp add: isSensorReadingValid_def config)

lemma humidityRange_eq:
  "isSensorReadingValid h MIN_HUMIDITY MAX_HUMIDITY HUMIDITY_VALIDATION = (0 \<le> h \<and> h \<le> 100)"
  by (simp add: isSensorReadingValid_def config)

lemma validate_flags:
  "soilMoistureValid (sensorValidation (validateSensorReadings t h soil g)) =
     (soilRangeAndChange soil (lastSoilMoisture (sensorValidation g))
      \<and> checkSensorConsistency (soilMoistureReadings (sensorValidation g)) soil)"
  "temperatureValid (sensorValidation (validateSensorReadings t h soil g)) =
     (isSensorReadingValid t MIN_TEMPERATURE MAX_TEMPERATURE TEMPERATURE_VALIDATION
      \<and> checkSensorConsistency (temperatureReadings (sensorValidation g)) (c_int (t * 10)))"
  "humidityValid (sensorValidation (validateSensorReadings t h soil g)) =
     (isSensorReadingValid h MIN_HUMIDITY MAX_HUMIDITY HUMIDITY_VALIDATION
      \<and> checkSensorConsistency (humidityReadings (sensorValidation g)) (c_int (h * 10)))"
  by (simp_all add: validateSensorReadings_def Let_def CONSISTENCY_VALIDATION_def)

lemma validate_history:
  "soilMoistureReadings (sensorValidation (validateSensorReadings t h soil g)) =
     (soilMoistureReadings (sensorValidation g))[readingIndex (sensorValidation g) := soil]"
  "temperatureReadings (sensorValidation (validateSensorReadings t h soil g)) =
     (temperatureReadings (sensorValidation g))
       [readingIndex (sensorValidation g) := c_int (t * 10)]"
  "humidityReadings (sensorValidation (validateSensorReadings t h soil g)) =
     (humidityReadings (sensorValidation g))
       [readingIndex (sensorValidation g) := c_int (h * 10)]"
  "readingIndex (sensorValidation (validateSensorReadings t h soil g)) =
     (readingIndex (sensorValidation g) + 1) mod 3"
  by (simp_all add: validateSensorReadings_def Let_def SENSOR_CONSISTENCY_CHECKS_def)

lemma validate_online_light:
  "lightLevelValid (sensorValidation (validateSensorReadings_online t h soil light go)) =
     (lightRangeAndChange light (lastLightLevel (sensorValidation go))
      \<and> checkSensorConsistency (lightLevelReadings (sensorValidation go)) light)"
  by (simp add: validateSensorReadings_online_def Let_def CONSISTENCY_VALIDATION_def)

text \<open>
  C6. \<^verbatim>\<open>checkSensorConsistency\<close> accepts a reading exactly when it is not more than 5
  away from the truncated integer average of the 3 stored samples. For each channel
  (temperature and humidity in tenths, soil moisture, and the online sketch's light
  level) the validity flag is the conjunction of the range check, the sudden-change check
  where the channel has one, and this verdict on the history as it was before the
  sample; every sample, accepted or not, then overwrites the slot at \<open>readingIndex\<close>,
  which advances modulo 3.
\<close>

theorem consistency_check_verdict:
  "checkSensorConsistency readings n =
     (\<not> \<bar>n - (readings ! 0 + readings ! 1 + readings ! 2) sdiv 3\<bar> > 5)
   \<and> SENSOR_CONSISTENCY_CHECKS = 3 \<and> SENSOR_CONSISTENCY_THRESHOLD = 5
   \<and> soilMoistureValid (sensorValidation (validateSensorReadings t h soil g)) =
       ((0 \<le> soil \<and> soil \<le> 100 \<and> \<bar>soil - lastSoilMoisture (sensorValidation g)\<bar> \<le> 20)
        \<and> checkSensorConsistency (soilMoistureReadings (sensorValidation g)) soil)
   \<and> temperatureValid (sensorValidation (validateSensorReadings t h soil g)) =
       ((- 10 \<le> t \<and> t \<le> 60)
        \<and> checkSensorConsistency (temperatureReadings (sensorValidation g)) (c_int (t * 10)))
   \<and> humidityValid (sensorValidation (validateSensorReadings t h soil g)) =
       ((0 \<le> h \<and> h \<le> 100)
        \<and> checkSensorConsistency (humidityReadings (sensorValidation g)) (c_int (h * 10)))
   \<and> soilMoistureReadings (sensorValidation (validateSensorReadings t h soil g)) =
       (soilMoistureReadings (sensorValidation g))[readingIndex (sensorValidation g) := soil]
   \<and> temperatureReadings (sensorValidation (validateSensorReadings t h soil g)) =
       (temperatureReadings (sensorValidation g))
         [readingIndex (sensorValidation g) := c_int (t * 10)]
   \<and> humidityReadings (sensorValidation (validateSensorReadings t h soil g)) =
       (humidityReadings (sensorValidation g))
         [readingIndex (sensorValidation g) := c_int (h * 10)]
   \<and> readingIndex (sensorValidation (validateSensorReadings t h soil g)) =
       (readingIndex (sensorValidation g) + 1) mod 3
   \<and> lightLevelValid (sensorValidation (validateSensorReadings_online t h soil light go)) =
       ((0 \<le> light \<and> light \<le> 100 \<and> \<bar>light - lastLightLevel (sensorValidation go)\<bar> \<le> 30)
        \<and> checkSensorConsistency (lightLevelReadings (sensorValidation go)) light)"
proof -
  have c: "checkSensorConsistency readings n =
     (\<not> \<bar>n - (readings ! 0 + readings ! 1 + readings ! 2) sdiv 3\<bar> > 5)"
    unfolding checkSensorConsistency_eq by (rule not_less [symmetric])
  have k: "SENSOR_CONSISTENCY_CHECKS = 3" "SENSOR_CONSISTENCY_THRESHOLD = 5"
    by (simp_all add: config)
  note f = validate_flags [of t h soil g, unfolded soilRangeAndChange_eq temperatureRange_eq
      humidityRange_eq]
  note l = validate_online_light [of t h soil light go, unfolded lightRangeAndChange_eq]
  note hs = validate_history [of t h soil g]
  from c k f l hs show ?thesis by (intro conjI) assumption+
qed

theorem consistency_check_verdict_witness:
  "\<not> checkSensorConsistency [50, 50, 31] 50
   \<and> checkSensorConsistency [50, 50, 38] 50
   \<and> \<not> soilMoistureValid (sensorValidation
          (validateSensorReadings 0 0 10 (initialState True)))
   \<and> soilMoistureValid (sensorValidation
          (validateSensorReadings 0 0 5 (initialState True)))"
proof -
  have a: "\<not> checkSensorConsistency [50, 50, 31] 50"
    using consistency_check_verdict [of "[50, 50, 31]" 50 0 0 10 "initialState True" 0
        "initialState_online True"]
    by (simp add: signed_divide_int_def)
  have b: "checkSensorConsistency [50, 50, 38] 50"
    using consistency_check_verdict [of "[50, 50, 38]" 50 0 0 10 "initialState True" 0
        "initialState_online True"]
    by (simp add: signed_divide_int_def)
  have c: "\<not> soilMoistureValid (sensorValidation
          (validateSensorReadings 0 0 10 (initialState True)))"
    by code_simp
  have d: "soilMoistureValid (sensorValidation
          (validateSensorReadings 0 0 5 (initialState True)))"
    by code_simp
  from a b c d show ?thesis by blast
qed

subsection \<open>What a sample changes\<close>

lemma readSensors_counters:
  "disconnectCount (sensorValidation (readSensors smp g)) =
     (if dhtFailed smp then disconnectCount (sensorValidation g) + 1
      else if accepted (readSensors smp g) then 0
      else disconnectCount (sensorValidation g))"
  "sensorErrors (systemState (readSensors smp g)) =
     (if dhtFailed smp then sensorErrors (systemState g) + 1
      else if accepted (readSensors smp g) then 0
      else sensorErrors (systemState g) + 1)"
  by (auto simp add: readSensors_def dhtFailed_def accepted_def Let_def
        validateSensorReadings_def split: option.splits)

lemma readSensors_soil:
  "soilMoisturePercent (systemState (readSensors smp g)) =
     (if \<not> dhtFailed smp \<and> accepted (readSensors smp g) then soilPercent (soilAnalog smp)
      else soilMoisturePercent (systemState g))"
  by (auto simp add: readSensors_def dhtFailed_def accepted_def Let_def
        validateSensorReadings_def split: option.splits)

lemma readSensors_online_soil:
  "soilMoisturePercent (systemState (readSensors_online smpo go)) =
     (if dhtFailed smpo then soilMoisturePercent (systemState go)
      else soilPercent (soilAnalog smpo))"
  by (auto simp add: readSensors_online_def dhtFailed_def Let_def
        validateSensorReadings_online_def split: option.splits)

lemma soilPercent_range: "0 \<le> soilPercent raw \<and> soilPercent raw \<le> 100"
  by (simp add: soilPercent_def constrain_def)

subsection \<open>No decision reads the disconnect counter\<close>

lemma setDisconnectCount_twice:
  "setDisconnectCount n (setDisconnectCount k g) = setDisconnectCount n g"
  by (simp add: setDisconnectCount_def)

lemma setDisconnectCount_same:
  "setDisconnectCount (disconnectCount (sensorValidation g)) g = g"
  by (simp add: setDisconnectCount_def)

lemma same_up_to_counter:
  assumes "setDisconnectCount 0 x = setDisconnectCount 0 y"
  shows "x = setDisconnectCount (disconnectCount (sensorValidation x)) y"
proof -
  have "x = setDisconnectCount (disconnectCount (sensorValidation x)) (setDisconnectCount 0 x)"
    by (simp add: setDisconnectCount_twice setDisconnectCount_same)
  also have "\<dots> = setDisconnectCount (disconnectCount (sensorValidation x)) (setDisconnectCount 0 y)"
    by (simp only: assms)
  finally show ?thesis
    by (simp only: setDisconnectCount_twice)
qed

lemma counterBlind_step:
  assumes "counterBlind f"
  shows "\<exists>k. f (setDisconnectCount n g) = setDisconnectCount k (f g)"
proof -
  have "setDisconnectCount 0 (f (setDisconnectCount n g)) = setDisconnectCount 0 (f g)"
    using assms by (simp add: counterBlind_def)
  from same_up_to_counter [OF this] show ?thesis by blast
qed

lemma counterBlind_fold:
  "list_all counterBlind fs \<Longrightarrow> counterBlind (fold (\<lambda>statement. statement) fs)"
proof (induction fs)
  case Nil
  then show ?case by (simp add: counterBlind_def setDisconnectCount_twice)
next
  case (Cons f fs)
  then have f: "counterBlind f" and fs: "counterBlind (fold (\<lambda>statement. statement) fs)"
    by simp_all
  show ?case
    unfolding counterBlind_def
  proof (intro allI)
    fix n g
    from counterBlind_step [OF f, of n g]
    obtain k where k: "f (setDisconnectCount n g) = setDisconnectCount k (f g)"
      by blast
    show "setDisconnectCount 0 (fold (\<lambda>statement. statement) (f # fs) (setDisconnectCount n g))
          = setDisconnectCount 0 (fold (\<lambda>statement. statement) (f # fs) g)"
      using fs by (simp add: k counterBlind_def)
  qed
qed

lemma blind_clock: "counterBlind (\<lambda>g. g\<lparr>currentTime := t\<rparr>)"
  by (simp add: counterBlind_def setDisconnectCount_def)

lemma blind_feedWatchdog: "counterBlind feedWatchdog"
  by (simp add: counterBlind_def setDisconnectCount_def feedWatchdog_def)

lemma blind_startIrrigation: "counterBlind startIrrigation"
  by (simp add: counterBlind_def setDisconnectCount_def startIrrigation_def)

lemma blind_stopIrrigation: "counterBlind stopIrrigation"
  by (simp add: counterBlind_def setDisconnectCount_def stopIrrigation_def)

lemma blind_emergencyStop_fn: "counterBlind emergencyStop_fn"
  by (simp add: counterBlind_def setDisconnectCount_def emergencyStop_fn_def stopIrrigation_def
        Let_def)

lemma blind_pumpRuntimeProtection: "counterBlind pumpRuntimeProtection"
  by (simp add: counterBlind_def setDisconnectCount_def pumpRuntimeProtection_def
        checkPumpRuntime_def stopIrrigation_def)

lemma blind_handleClient: "counterBlind (handleClient req)"
  by (simp add: counterBlind_def setDisconnectCount_def handleClient_def handleControl_def
        startIrrigation_def stopIrrigation_def split: option.splits request.splits)

lemma blind_readSensorsAtInterval: "counterBlind (readSensorsAtInterval smp)"
  by (simp add: counterBlind_def setDisconnectCount_def readSensorsAtInterval_def
        readSensors_def validateSensorReadings_def Let_def split: option.splits)

lemma blind_handleControlInput: "counterBlind (handleControlInput pot)"
  by (simp add: counterBlind_def setDisconnectCount_def handleControlInput_def
        handleHardwareControl_def handlePotentiometer_def)

lemma blind_controlIrrigation: "counterBlind controlIrrigation"
  by (simp add: counterBlind_def setDisconnectCount_def controlIrrigation_def
        startConditions_def irrigationThreshold_def startIrrigation_def stopIrrigation_def Let_def)

lemma blind_checkStatusAtInterval: "counterBlind checkStatusAtInterval"
  by (simp add: counterBlind_def setDisconnectCount_def checkStatusAtInterval_def
        checkSystemStatus_def Let_def)

lemma blind_attemptRecoveryIfNeeded: "counterBlind (attemptRecoveryIfNeeded a b)"
  by (simp add: counterBlind_def setDisconnectCount_def attemptRecoveryIfNeeded_def
        attemptSystemRecovery_def Let_def)

lemma blind_loop: "counterBlind (loop inp)"
  unfolding counterBlind_def
proof (intro allI)
  fix n g
  let ?pre = "\<lambda>g. feedWatchdog (g\<lparr>currentTime := millis inp\<rparr>)"
  let ?body = "fold (\<lambda>statement. statement)
                [pumpRuntimeProtection,
                 handleClient (webRequest inp),
                 readSensorsAtInterval (sensors inp),
                 handleControlInput (potAnalog inp),
                 controlIrrigation,
                 checkStatusAtInterval,
                 attemptRecoveryIfNeeded (recoveryTemp inp) (recoveryHumidity inp)]"
  have pre: "counterBlind ?pre"
    by (simp add: counterBlind_def setDisconnectCount_def feedWatchdog_def)
  from counterBlind_step [OF pre, of n g]
  obtain k where k: "?pre (setDisconnectCount n g) = setDisconnectCount k (?pre g)"
    by blast
  have flag: "emergencyStop (systemState (setDisconnectCount k (?pre g)))
                = emergencyStop (systemState (?pre g))"
    by (simp add: setDisconnectCount_def)
  have body: "counterBlind ?body"
    by (rule counterBlind_fold)
       (simp add: blind_pumpRuntimeProtection blind_handleClient blind_readSensorsAtInterval
          blind_handleControlInput blind_controlIrrigation blind_checkStatusAtInterval
          blind_attemptRecoveryIfNeeded)
  have l: "loop inp x =
             (if emergencyStop (systemState (?pre x)) then emergencyStop_fn (?pre x)
              else ?body (?pre x))" for x
    by (simp add: loop_def Let_def EMERGENCY_STOP_ENABLED_def)
  show "setDisconnectCount 0 (loop inp (setDisconnectCount n g))
        = setDisconnectCount 0 (loop inp g)"
    unfolding l k flag
    using blind_emergencyStop_fn body by (simp add: counterBlind_def)
qed

section \<open>Properties of the sensor path\<close>

text \<open>
  C7, as amended. The sketch keeps one counter, \<open>disconnectCount\<close>, for all channels.
  A sample whose DHT read fails adds one to it (and to \<open>sensorErrors\<close>); a sample that a
  validation check rejects leaves it unchanged and adds one to \<open>sensorErrors\<close>; a sample
  accepted on all channels resets both to zero. The soil-moisture percentage handed to
  validation is always within its range. Nothing is reported from the counter: a pass of
  the loop started with any other value of \<open>disconnectCount\<close> ends in the same state,
  the counter apart.
\<close>

theorem disconnect_counter_behaviour:
  "disconnectCount (sensorValidation (readSensors smp g)) =
     (if dhtFailed smp then disconnectCount (sensorValidation g) + 1
      else if accepted (readSensors smp g) then 0
      else disconnectCount (sensorValidation g))
   \<and> sensorErrors (systemState (readSensors smp g)) =
     (if dhtFailed smp then sensorErrors (systemState g) + 1
      else if accepted (readSensors smp g) then 0
      else sensorErrors (systemState g) + 1)
   \<and> 0 \<le> soilPercent (soilAnalog smp) \<and> soilPercent (soilAnalog smp) \<le> MAX_SOIL_MOISTURE
   \<and> setDisconnectCount 0 (loop inp (setDisconnectCount n g)) = setDisconnectCount 0 (loop inp g)"
proof -
  have b: "setDisconnectCount 0 (loop inp (setDisconnectCount n g))
             = setDisconnectCount 0 (loop inp g)"
    using blind_loop [of inp] by (simp add: counterBlind_def)
  have r: "0 \<le> soilPercent (soilAnalog smp) \<and> soilPercent (soilAnalog smp) \<le> MAX_SOIL_MOISTURE"
    using soilPercent_range [of "soilAnalog smp"] by (simp add: MAX_SOIL_MOISTURE_def)
  from readSensors_counters [of smp g] r b show ?thesis
    by (intro conjI) (assumption | erule conjunct1 | erule conjunct2)+
qed

theorem disconnect_counter_behaviour_witness:
  "dhtFailed \<lparr>dhtTemperature = None, dhtHumidity = Some 0, soilAnalog = 0\<rparr>
   \<and> disconnectCount (sensorValidation
        (readSensors \<lparr>dhtTemperature = None, dhtHumidity = Some 0, soilAnalog = 0\<rparr>
           (initialState True))) = 1
   \<and> \<not> dhtFailed wetReading \<and> \<not> accepted (readSensors wetReading (initialState True))
   \<and> disconnectCount (sensorValidation (readSensors wetReading (initialState True))) = 0
   \<and> sensorErrors (systemState (readSensors wetReading (initialState True))) = 1"
proof -
  have a: "dhtFailed \<lparr>dhtTemperature = None, dhtHumidity = Some 0, soilAnalog = 0\<rparr>"
    by (simp add: dhtFailed_def)
  have b: "\<not> dhtFailed wetReading"
    by (simp add: dhtFailed_def wetReading_def)
  have c: "\<not> accepted (readSensors wetReading (initialState True))"
    by code_simp
  have d: "disconnectCount (sensorValidation (initialState True)) = 0
           \<and> sensorErrors (systemState (initialState True)) = 0"
    by (simp add: initialState_def)
  from a b c d
    disconnect_counter_behaviour [of "\<lparr>dhtTemperature = None, dhtHumidity = Some 0, soilAnalog = 0\<rparr>"
      "initialState True" "dryInput 0" 0]
    disconnect_counter_behaviour [of wetReading "initialState True" "dryInput 0" 0]
  show ?thesis by simp
qed

text \<open>
  C7 as stated fails: a soil-moisture sample rejected by validation does not increment
  the counter, and after ten consecutive rejected soil-moisture samples it is still zero
  while \<open>sensorErrors\<close> is ten.
\<close>

theorem disconnect_counter_counterexample:
  "\<not> soilMoistureValid (sensorValidation (readSensors wetReading (initialState True)))
   \<and> disconnectCount (sensorValidation (readSensors wetReading (initialState True)))
       = disconnectCount (sensorValidation (initialState True))
   \<and> sensorErrors (systemState (fold readSensors tenJumpyReadings (initialState True))) = 10
   \<and> disconnectCount (sensorValidation (fold readSensors tenJumpyReadings (initialState True)))
       = 0"
  by code_simp

text \<open>
  C8, as amended. In the main sketch \<^verbatim>\<open>readSensors\<close> stores the soil-moisture percentage
  only from a sample whose DHT read succeeded and that validation accepted on all three
  channels; otherwise the stored value is unchanged. In the online sketch every sample
  whose DHT read succeeded overwrites the stored percentage, validated or not.
\<close>

theorem soil_state_update:
  "soilMoisturePercent (systemState (readSensors smp g)) =
     (if \<not> dhtFailed smp \<and> accepted (readSensors smp g) then soilPercent (soilAnalog smp)
      else soilMoisturePercent (systemState g))
   \<and> soilMoisturePercent (systemState (readSensors_online smpo go)) =
     (if dhtFailed smpo then soilMoisturePercent (systemState go)
      else soilPercent (soilAnalog smpo))"
  using readSensors_soil [of smp g] readSensors_online_soil [of smpo go]
  by (intro conjI) assumption+

theorem soil_state_update_witness:
  "\<not> dhtFailed wetReading \<and> \<not> accepted (readSensors wetReading (initialState True))
   \<and> soilPercent (soilAnalog wetReading) = 100
   \<and> soilMoisturePercent (systemState (readSensors wetReading (initialState True))) = 0
   \<and> \<not> dhtFailed dryReading \<and> accepted (readSensors dryReading (initialState True))
   \<and> \<not> dhtFailed moistReading_online
   \<and> soilMoisturePercent (systemState
        (readSensors_online moistReading_online (initialState_online True))) = 50"
proof -
  have a: "\<not> dhtFailed wetReading \<and> \<not> dhtFailed dryReading \<and> \<not> dhtFailed moistReading_online"
    by (simp add: dhtFailed_def wetReading_def dryReading_def moistReading_online_def)
  have b: "\<not> accepted (readSensors wetReading (initialState True))"
    by code_simp
  have c: "accepted (readSensors dryReading (initialState True))"
    by code_simp
  have d: "soilPercent (soilAnalog wetReading) = 100
           \<and> soilPercent (soilAnalog moistReading_online) = 50"
    by code_simp
  have e: "soilMoisturePercent (systemState (initialState True)) = 0"
    by (simp add: initialState_def)
  from a b c d e
    soil_state_update [of wetReading "initialState True" moistReading_online
      "initialState_online True"]
  show ?thesis by simp
qed

text \<open>
  C8 as stated fails for the online sketch: with 50 percent stored and no irrigation due,
  a sample of 0 percent is rejected by validation, is stored all the same, and
  \<^verbatim>\<open>controlIrrigation\<close> starts the pump on it.
\<close>

theorem soil_state_online_counterexample:
  "soilMoistureValid (sensorValidation moistState_online)
   \<and> soilMoisturePercent (systemState moistState_online) = 50
   \<and> \<not> pumpActive (systemState (controlIrrigation (moistState_online\<lparr>currentTime := 300000\<rparr>)))
   \<and> \<not> soilMoistureValid (sensorValidation (readSensors_online dryReading_online moistState_online))
   \<and> soilMoisturePercent (systemState (readSensors_online dryReading_online moistState_online)) = 0
   \<and> pumpActive (systemState (controlIrrigation
        ((readSensors_online dryReading_online moistState_online)\<lparr>currentTime := 300000\<rparr>)))"
  by code_simp

end
